theory Spec2Isabelle
  imports Complex_Main "HOL-Library.Multiset"
begin

section \<open>The Emote component (src/src/App.tsx)\<close>

text \<open>
  The component keeps React state (selected image, status string, emotion predictions,
  loading flag, the two model handles), reacts to a file upload and to a click on the
  detect button, and renders the predictions filtered and sorted.

  JavaScript numbers are modelled as \<^typ>\<open>real\<close>: arithmetic is exact and every number
  is finite (no NaN, no rounding). Collaborators that the component only calls (the canvas
  and the two models) are parameters; each call either returns a value or throws. The
  request handler takes the preprocessing of the crop as a parameter too; the chain of
  TensorFlow.js calls that the component passes for it is embedded separately below.
\<close>

subsection \<open>Values\<close>

text \<open>A thrown JavaScript value. The handler of \<open>detectEmotion\<close> never inspects it.\<close>

datatype exn = TypeError | HostError

text \<open>
  \<open>interface EmotionPrediction { emotion: string; probability: number }\<close>.
  At run time \<open>emotion\<close> is \<open>emotions[idx]\<close>, which is \<open>undefined\<close> beyond the end of
  the array: \<open>None\<close> stands for \<open>undefined\<close>.
\<close>

record EmotionPrediction =
  emotion :: "string option"
  probability :: real

text \<open>Reading \<open>xs[i]\<close> in JavaScript: \<open>undefined\<close> (here \<open>None\<close>) out of range.\<close>

definition at_index :: "'a list \<Rightarrow> nat \<Rightarrow> 'a option" where
  "at_index xs i = (if i < length xs then Some (xs ! i) else None)"

text \<open>Truthiness of a \<open>string | null\<close>: \<open>null\<close> and the empty string are falsy.\<close>

definition falsy :: "string option \<Rightarrow> bool" where
  "falsy v = (case v of None \<Rightarrow> True | Some str \<Rightarrow> str = [])"

subsection \<open>Postprocessing of the classifier output (lines 131-140)\<close>

definition emotions :: "string list" where
  "emotions = [''Angry'', ''Disgust'', ''Fear'', ''Happy'', ''Neutral'', ''Sad'', ''Surprised'']"

text \<open>\<open>predictions[0].map((prob, idx) => ({emotion: emotions[idx], probability: prob * 100}))\<close>\<close>

definition emotionResults :: "real list \<Rightarrow> EmotionPrediction list" where
  "emotionResults probs =
     map (\<lambda>(prob, idx). \<lparr>emotion = at_index emotions idx, probability = prob * 100\<rparr>)
         (zip probs [0..<length probs])"

subsection \<open>Filtering and sorting in the view (lines 202-204)\<close>

text \<open>
  \<open>Array.prototype.sort\<close> with a comparator is stable (ECMAScript 2019), and for a
  consistent comparator its result is the one stable arrangement in which no element
  comes before one the comparator puts ahead of it. Insertion from the right computes
  that arrangement: an element goes in front of the first later element \<open>b\<close> with
  \<open>cmp a b \<le> 0\<close>.
\<close>

fun insert_sorted :: "('a \<Rightarrow> 'a \<Rightarrow> real) \<Rightarrow> 'a \<Rightarrow> 'a list \<Rightarrow> 'a list" where
  "insert_sorted cmp a [] = [a]"
| "insert_sorted cmp a (b # bs) =
     (if cmp a b \<le> 0 then a # b # bs else b # insert_sorted cmp a bs)"

fun array_sort :: "('a \<Rightarrow> 'a \<Rightarrow> real) \<Rightarrow> 'a list \<Rightarrow> 'a list" where
  "array_sort cmp [] = []"
| "array_sort cmp (a # rest) = insert_sorted cmp a (array_sort cmp rest)"

text \<open>
  \<open>emotionPredictions.filter(({probability}) => probability > 0.0001)
       .sort((a, b) => b.probability - a.probability)\<close>
\<close>

definition rankedResult :: "EmotionPrediction list \<Rightarrow> EmotionPrediction list" where
  "rankedResult eps =
     array_sort (\<lambda>a b. probability b - probability a)
       (filter (\<lambda>e. probability e > 0.0001) eps)"

subsection \<open>Crop region (lines 108-117)\<close>

text \<open>A landmark is a point \<open>[x, y]\<close>; a face carries its landmarks.\<close>

record Face =
  landmarks :: "(real \<times> real) list"

text \<open>The four arguments \<open>sx, sy, sw, sh\<close> of \<open>ctx.getImageData\<close>.\<close>

record CropRegion =
  sx :: real
  sy :: real
  sw :: real
  sh :: real

text \<open>
  \<open>landmarks[2][0]\<close> throws a TypeError when \<open>landmarks[2]\<close> is \<open>undefined\<close>; the reads
  happen in the order nose, right, left.
\<close>

definition cropRegion :: "(real \<times> real) list \<Rightarrow> exn + CropRegion" where
  "cropRegion lms =
     (case at_index lms 2 of None \<Rightarrow> Inl TypeError | Some nose \<Rightarrow>
     (case at_index lms 4 of None \<Rightarrow> Inl TypeError | Some rightp \<Rightarrow>
     (case at_index lms 5 of None \<Rightarrow> Inl TypeError | Some leftp \<Rightarrow>
        (let nosex = fst nose; nosey = snd nose;
             right = fst rightp; left = fst leftp;
             len = (left - right) / 2 + 5
         in Inr \<lparr>sx = nosex - len, sy = nosey - len, sw = 2 * len, sh = 2 * len\<rparr>))))"

subsection \<open>State and collaborators\<close>

type_synonym 'i FaceDetector = "'i \<Rightarrow> exn + Face list"

type_synonym 't EmotionDetector = "'t \<Rightarrow> exn + real list list"

text \<open>
  A model handle is \<open>null\<close> or the loaded model; the loaded model is what its call returns:
  \<open>await faceDetector.estimateFaces(imageData)\<close> for the face detector, and
  \<open>await emotionDetector.predict(imageTensor).array()\<close> for the emotion detector.
\<close>

record ('i, 't) Models =
  faceDetector :: "'i FaceDetector option"
  emotionDetector :: "'t EmotionDetector option"

record ('i, 't) AppState =
  selectedImage :: "string option"
  prediction :: "string option"
  emotionPredictions :: "EmotionPrediction list option"
  isLoading :: bool
  models :: "('i, 't) Models"

record HTMLImageElement =
  width :: nat
  height :: nat

record 'i CanvasRenderingContext2D =
  drawImage :: "HTMLImageElement \<Rightarrow> real \<Rightarrow> real \<Rightarrow> real \<Rightarrow> real \<Rightarrow> exn + unit"
  getImageData :: "real \<Rightarrow> real \<Rightarrow> real \<Rightarrow> real \<Rightarrow> exn + 'i"

record 'i HTMLCanvasElement =
  getContext :: "'i CanvasRenderingContext2D option"

text \<open>
  What the component reaches outside its state: the two refs, and the chain
  \<open>tf.browser.fromPixels(faceData).resizeBilinear([48, 48]).mean(2).toFloat()
  .expandDims(0).expandDims(-1)\<close> as one call \<open>imageTensor\<close>. With browser pixel data
  and TensorFlow.js tensors, that call is \<open>imageTensorChain\<close> of the subsection on the
  preprocessing chain.
\<close>

record ('i, 't) Env =
  imageRef :: "HTMLImageElement option"
  canvasRef :: "'i HTMLCanvasElement option"
  imageTensor :: "'i \<Rightarrow> exn + 't"

subsection \<open>handleImageUpload (lines 69-82)\<close>

text \<open>\<open>e.target?.result\<close> of the reader's load event: a string, an ArrayBuffer or null.\<close>

datatype FileReaderResult = ResultString string | ResultArrayBuffer | ResultNull

text \<open>A chosen file, with how reading it ends: \<open>onload\<close> fires with a result, or never.\<close>

datatype ReadOutcome = OnLoad FileReaderResult | NoLoad

text \<open>The argument is \<open>event.target.files?.[0]\<close>: \<open>None\<close> when no file was chosen.\<close>

definition handleImageUpload ::
  "ReadOutcome option \<Rightarrow> ('i, 't) AppState \<Rightarrow> ('i, 't) AppState" where
  "handleImageUpload file s =
     (case file of
        None \<Rightarrow> s
      | Some NoLoad \<Rightarrow> s
      | Some (OnLoad (ResultString url)) \<Rightarrow>
          s\<lparr>selectedImage := Some url, emotionPredictions := None, prediction := None\<rparr>
      | Some (OnLoad _) \<Rightarrow> s)"

subsection \<open>detectEmotion (lines 84-154)\<close>

text \<open>How the \<open>try\<close> block ends: at its end, by \<open>return\<close>, or by a throw.\<close>

datatype completion = Normal | Returned | Thrown exn

text \<open>Lines 108-143: the branch \<open>faces.length > 0\<close>, from the crop on.\<close>

definition analyzeCrop ::
  "('i, 't) Env \<Rightarrow> 't EmotionDetector \<Rightarrow> 'i \<Rightarrow> ('i, 't) AppState \<Rightarrow>
     completion \<times> ('i, 't) AppState" where
  "analyzeCrop env emotionModel faceData s =
     (case imageTensor env faceData of Inl e \<Rightarrow> (Thrown e, s) | Inr tensor \<Rightarrow>
     (case emotionModel tensor of Inl e \<Rightarrow> (Thrown e, s) | Inr predictions \<Rightarrow>
     (case at_index predictions 0 of None \<Rightarrow> (Thrown TypeError, s) | Some probs \<Rightarrow>
        (Normal, s\<lparr>emotionPredictions := Some (emotionResults probs),
                   prediction := Some ''Face detected and emotion analyzed!''\<rparr>))))"

definition analyzeFace ::
  "('i, 't) Env \<Rightarrow> 'i CanvasRenderingContext2D \<Rightarrow> 't EmotionDetector \<Rightarrow> Face \<Rightarrow>
     ('i, 't) AppState \<Rightarrow> completion \<times> ('i, 't) AppState" where
  "analyzeFace env ctx emotionModel face s =
     (case cropRegion (landmarks face) of Inl e \<Rightarrow> (Thrown e, s) | Inr r \<Rightarrow>
     (case getImageData ctx (sx r) (sy r) (sw r) (sh r) of
        Inl e \<Rightarrow> (Thrown e, s)
      | Inr faceData \<Rightarrow> analyzeCrop env emotionModel faceData s))"

text \<open>
  Lines 88-147: the \<open>try\<close> block, entered once the guard of line 85 has passed.
  Only the first face is used.
\<close>

definition tryBlock ::
  "('i, 't) Env \<Rightarrow> HTMLImageElement \<Rightarrow> 'i FaceDetector \<Rightarrow> 't EmotionDetector \<Rightarrow>
     ('i, 't) AppState \<Rightarrow> completion \<times> ('i, 't) AppState" where
  "tryBlock env img faceModel emotionModel s0 =
     (let s = s0\<lparr>isLoading := True\<rparr> in
     (case canvasRef env of None \<Rightarrow> (Returned, s) | Some canvas \<Rightarrow>
     (case getContext canvas of None \<Rightarrow> (Returned, s) | Some ctx \<Rightarrow>
     (case drawImage ctx img 0 0 (real (width img)) (real (height img)) of
        Inl e \<Rightarrow> (Thrown e, s)
      | Inr u \<Rightarrow>
     (case getImageData ctx 0 0 (real (width img)) (real (height img)) of
        Inl e \<Rightarrow> (Thrown e, s)
      | Inr imageData \<Rightarrow>
     (case faceModel imageData of Inl e \<Rightarrow> (Thrown e, s) | Inr faces \<Rightarrow>
     (case faces of
        face # others \<Rightarrow> analyzeFace env ctx emotionModel face s
      | [] \<Rightarrow> (Normal, s\<lparr>prediction := Some ''No faces detected'',
                         emotionPredictions := None\<rparr>))))))))"

text \<open>The \<open>catch\<close> and \<open>finally\<close> clauses (lines 148-153).\<close>

definition catchFinally :: "completion \<times> ('i, 't) AppState \<Rightarrow> ('i, 't) AppState" where
  "catchFinally r =
     (let s = (case fst r of
                 Thrown e \<Rightarrow> (snd r)\<lparr>prediction := Some ''Error detecting faces''\<rparr>
               | Normal \<Rightarrow> snd r
               | Returned \<Rightarrow> snd r)
      in s\<lparr>isLoading := False\<rparr>)"

definition detectEmotion :: "('i, 't) Env \<Rightarrow> ('i, 't) AppState \<Rightarrow> ('i, 't) AppState" where
  "detectEmotion env s =
     (if falsy (selectedImage s) then s else
     (case imageRef env of None \<Rightarrow> s | Some img \<Rightarrow>
     (case faceDetector (models s) of None \<Rightarrow> s | Some faceModel \<Rightarrow>
     (case emotionDetector (models s) of None \<Rightarrow> s | Some emotionModel \<Rightarrow>
        catchFinally (tryBlock env img faceModel emotionModel s)))))"

subsection \<open>A request suspended at its first await (line 105)\<close>

text \<open>
  \<open>detectEmotion\<close> is an async function: at \<open>await estimateFaces(imageData)\<close> it gives
  control back, other handlers may run, and the rest of the body runs later on whatever the
  state is by then (the setters update the current state; the context and the emotion model
  are those the call captured). The \<open>await\<close> of line 129 is a second such point inside the
  rest; it is not split off here.

  \<open>untilFaces\<close> is lines 88-105 up to that await: either the \<open>try\<close> block has ended,
  or the request is suspended, holding the context, the outcome that the awaited call will
  have, and the state it leaves while it waits.
\<close>

definition untilFaces ::
  "('i, 't) Env \<Rightarrow> HTMLImageElement \<Rightarrow> 'i FaceDetector \<Rightarrow> ('i, 't) AppState \<Rightarrow>
     (completion \<times> ('i, 't) AppState) +
     ('i CanvasRenderingContext2D \<times> (exn + Face list) \<times> ('i, 't) AppState)" where
  "untilFaces env img faceModel s0 =
     (let s = s0\<lparr>isLoading := True\<rparr> in
     (case canvasRef env of None \<Rightarrow> Inl (Returned, s) | Some canvas \<Rightarrow>
     (case getContext canvas of None \<Rightarrow> Inl (Returned, s) | Some ctx \<Rightarrow>
     (case drawImage ctx img 0 0 (real (width img)) (real (height img)) of
        Inl e \<Rightarrow> Inl (Thrown e, s)
      | Inr u \<Rightarrow>
     (case getImageData ctx 0 0 (real (width img)) (real (height img)) of
        Inl e \<Rightarrow> Inl (Thrown e, s)
      | Inr imageData \<Rightarrow> Inr (ctx, faceModel imageData, s))))))"

text \<open>Lines 105-147 from the moment the awaited call settles, on the state current then.\<close>

definition afterFaces ::
  "('i, 't) Env \<Rightarrow> 'i CanvasRenderingContext2D \<Rightarrow> 't EmotionDetector \<Rightarrow> exn + Face list \<Rightarrow>
     ('i, 't) AppState \<Rightarrow> completion \<times> ('i, 't) AppState" where
  "afterFaces env ctx emotionModel awaited s =
     (case awaited of Inl e \<Rightarrow> (Thrown e, s) | Inr faces \<Rightarrow>
     (case faces of
        face # others \<Rightarrow> analyzeFace env ctx emotionModel face s
      | [] \<Rightarrow> (Normal, s\<lparr>prediction := Some ''No faces detected'',
                         emotionPredictions := None\<rparr>)))"

text \<open>
  A request during which one other handler runs as soon as it can: at the await if the
  request gets that far, after it otherwise.
\<close>

definition detectEmotionInterleaved ::
  "('i, 't) Env \<Rightarrow> (('i, 't) AppState \<Rightarrow> ('i, 't) AppState) \<Rightarrow> ('i, 't) AppState \<Rightarrow>
     ('i, 't) AppState" where
  "detectEmotionInterleaved env handler s =
     (if falsy (selectedImage s) then handler s else
     (case imageRef env of None \<Rightarrow> handler s | Some img \<Rightarrow>
     (case faceDetector (models s) of None \<Rightarrow> handler s | Some faceModel \<Rightarrow>
     (case emotionDetector (models s) of None \<Rightarrow> handler s | Some emotionModel \<Rightarrow>
     (case untilFaces env img faceModel s of
        Inl ended \<Rightarrow> handler (catchFinally ended)
      | Inr (ctx, awaited, waiting) \<Rightarrow>
          catchFinally (afterFaces env ctx emotionModel awaited (handler waiting)))))))"

subsection \<open>The view (lines 172-178 and 196-213)\<close>


text \<open>
  The result block: nothing while \<open>prediction\<close> is falsy; otherwise the status line and,
  when \<open>emotionPredictions\<close> is not null, the filtered and sorted predictions.
\<close>

record ResultView =
  statusLine :: string
  shown :: "EmotionPrediction list option"

definition resultView :: "('i, 't) AppState \<Rightarrow> ResultView option" where
  "resultView s =
     (case prediction s of
        None \<Rightarrow> None
      | Some str \<Rightarrow>
          if str = [] then None
          else Some \<lparr>statusLine = str,
                     shown = map_option rankedResult (emotionPredictions s)\<rparr>)"

subsection \<open>The preprocessing chain (lines 120-125)\<close>

text \<open>
  Modelled from the spec: the extracted pixel region of section 4.2, in the form of the
  browser's \<open>ImageData\<close> that \<open>getImageData\<close> returns and the sources only pass on: a
  width, a height and the pixels row by row, four bytes (red, green, blue, alpha) each.
\<close>

record ImageData =
  dataWidth :: nat
  dataHeight :: nat
  data :: "nat list"

text \<open>
  Modelled from the spec: byte \<open>n\<close> of the pixel data as a number, as the library copies
  it into an integer tensor; a read past the end of the data gives 0 there.
\<close>

definition channelByte :: "ImageData \<Rightarrow> nat \<Rightarrow> real" where
  "channelByte img n = (case at_index (data img) n of None \<Rightarrow> 0 | Some b \<Rightarrow> real b)"

text \<open>
  Modelled from the spec: the fixed-shape numeric array of section 3, as TensorFlow.js
  holds a tensor: its element type, its shape, and its elements in row-major order.
  Float32 elements are modelled as reals. Every tensor the operations below build has as
  many elements as its shape says.
\<close>

datatype DType = Int32 | Float32

record Tensor =
  dtype :: DType
  shape :: "nat list"
  elements :: "real list"

text \<open>
  Modelled from the spec: \<open>tf.browser.fromPixels\<close> of TensorFlow.js, whose code is not part
  of the sources. Section 4.3 takes the extracted pixel region with its colour channels; the
  library documents the result as an int32 tensor of shape \<open>[height, width, 3]\<close> with the
  red, green and blue byte of each pixel, the alpha byte left out.
\<close>

definition fromPixels :: "ImageData \<Rightarrow> Tensor" where
  "fromPixels img =
     \<lparr>dtype = Int32,
      shape = [dataHeight img, dataWidth img, 3],
      elements = map (\<lambda>k. channelByte img (4 * (k div 3) + k mod 3))
                 [0..<dataHeight img * dataWidth img * 3]\<rparr>"

text \<open>
  Modelled from the spec: the bilinear interpolation of section 4.3, with the sampling of
  the library's \<open>resizeBilinear\<close> at its defaults (no corner alignment): output cell
  \<open>(row, col)\<close> looks at source position \<open>(row * h / newHeight, col * w / newWidth)\<close>
  and blends the four source pixels around it, first along the row, then between the rows.
  \<open>px r q\<close> reads source pixel \<open>(r, q)\<close>.
\<close>

definition bilinear ::
  "(nat \<Rightarrow> nat \<Rightarrow> real) \<Rightarrow> nat \<Rightarrow> nat \<Rightarrow> nat \<Rightarrow> nat \<Rightarrow> nat \<Rightarrow> nat \<Rightarrow> real" where
  "bilinear px h w newHeight newWidth row col =
     (let sourceRow = real row * (real h / real newHeight);
          rowFloor = nat \<lfloor>sourceRow\<rfloor>;
          rowCeil = min (h - 1) (nat \<lceil>sourceRow\<rceil>);
          rowFrac = sourceRow - real rowFloor;
          sourceCol = real col * (real w / real newWidth);
          colFloor = nat \<lfloor>sourceCol\<rfloor>;
          colCeil = min (w - 1) (nat \<lceil>sourceCol\<rceil>);
          colFrac = sourceCol - real colFloor;
          top = px rowFloor colFloor + (px rowFloor colCeil - px rowFloor colFloor) * colFrac;
          bottom = px rowCeil colFloor + (px rowCeil colCeil - px rowCeil colFloor) * colFrac
      in top + (bottom - top) * rowFrac)"

text \<open>
  Modelled from the spec: element \<open>k\<close> of the resized tensor, read from the row-major
  elements \<open>vals\<close> of a batch of \<open>h\<close> by \<open>w\<close> images with \<open>c\<close> channels.
\<close>

definition bilinearValue ::
  "real list \<Rightarrow> nat \<Rightarrow> nat \<Rightarrow> nat \<Rightarrow> nat \<Rightarrow> nat \<Rightarrow> nat \<Rightarrow> real" where
  "bilinearValue vals h w c newHeight newWidth k =
     (let ch = k mod c;
          col = (k div c) mod newWidth;
          row = (k div (c * newWidth)) mod newHeight;
          b = k div (c * newWidth * newHeight)
      in bilinear (\<lambda>r q. vals ! (((b * h + r) * w + q) * c + ch)) h w newHeight newWidth row col)"

text \<open>
  Modelled from the spec: \<open>resizeBilinear([newHeight, newWidth])\<close> of TensorFlow.js
  (section 4.3: resize to exactly 48 by 48 using bilinear interpolation). The library takes
  one image (rank 3) or a batch (rank 4), refuses any other rank, and returns float32.
\<close>

definition resizeBilinear :: "nat \<times> nat \<Rightarrow> Tensor \<Rightarrow> exn + Tensor" where
  "resizeBilinear newSize t =
     (case newSize of (newHeight, newWidth) \<Rightarrow>
     (case shape t of
        [h, w, c] \<Rightarrow>
          Inr \<lparr>dtype = Float32, shape = [newHeight, newWidth, c],
               elements = map (bilinearValue (elements t) h w c newHeight newWidth)
                          [0..<newHeight * newWidth * c]\<rparr>
      | [b, h, w, c] \<Rightarrow>
          Inr \<lparr>dtype = Float32, shape = [b, newHeight, newWidth, c],
               elements = map (bilinearValue (elements t) h w c newHeight newWidth)
                          [0..<b * newHeight * newWidth * c]\<rparr>
      | _ \<Rightarrow> Inl HostError))"

text \<open>
  Modelled from the spec: \<open>mean(axis)\<close> of TensorFlow.js (section 4.3: the unweighted
  arithmetic mean across channels). The axis is removed from the shape and every element is
  the sum along it divided by its length; a negative axis counts from the end, an axis out
  of range is refused.
\<close>

definition mean :: "int \<Rightarrow> Tensor \<Rightarrow> exn + Tensor" where
  "mean axis t =
     (let rank = int (length (shape t));
          ax = (if axis < 0 then rank + axis else axis)
      in if ax < 0 \<or> rank \<le> ax then Inl HostError
         else
           (let a = nat ax;
                outer = prod_list (take a (shape t));
                n = shape t ! a;
                inner = prod_list (drop (Suc a) (shape t))
            in Inr \<lparr>dtype = dtype t,
                    shape = take a (shape t) @ drop (Suc a) (shape t),
                    elements =
                      map (\<lambda>k. sum_list (map (\<lambda>m. elements t ! (((k div inner) * n + m) * inner
                                                      + k mod inner)) [0..<n]) / real n)
                        [0..<outer * inner]\<rparr>))"

text \<open>
  Modelled from the spec: \<open>toFloat()\<close> of TensorFlow.js (section 4.3: convert to floating
  point without range rescaling): the element type changes, the elements do not.
\<close>

definition toFloat :: "Tensor \<Rightarrow> Tensor" where
  "toFloat t = t\<lparr>dtype := Float32\<rparr>"

text \<open>
  Modelled from the spec: \<open>expandDims(axis)\<close> of TensorFlow.js (section 4.3: add a leading
  batch dimension and a trailing channel dimension, each of size 1). A dimension 1 is
  inserted at the axis, the elements stay; a negative axis counts from the end, so that
  \<open>-1\<close> appends; an axis beyond the rank is refused.
\<close>

definition expandDims :: "int \<Rightarrow> Tensor \<Rightarrow> exn + Tensor" where
  "expandDims axis t =
     (let rank = int (length (shape t));
          ax = (if axis < 0 then rank + axis + 1 else axis)
      in if ax < 0 \<or> rank < ax then Inl HostError
         else Inr (t\<lparr>shape := take (nat ax) (shape t) @ [1] @ drop (nat ax) (shape t)\<rparr>))"

text \<open>
  Lines 120-125:
  \<open>tf.browser.fromPixels(faceData).resizeBilinear([48, 48]).mean(2).toFloat()
  .expandDims(0).expandDims(-1)\<close>.
\<close>

definition imageTensorChain :: "ImageData \<Rightarrow> exn + Tensor" where
  "imageTensorChain faceData =
     (case resizeBilinear (48, 48) (fromPixels faceData) of Inl e \<Rightarrow> Inl e | Inr resized \<Rightarrow>
     (case mean 2 resized of Inl e \<Rightarrow> Inl e | Inr averaged \<Rightarrow>
     (case expandDims 0 (toFloat averaged) of Inl e \<Rightarrow> Inl e | Inr batched \<Rightarrow>
        expandDims (- 1) batched)))"

text \<open>
  What section 4.3 calls the bilinearly resized crop, read off the pixel data directly:
  channel \<open>ch\<close> (0 red, 1 green, 2 blue) of cell \<open>(row, col)\<close> of the 48 by 48 resize.
\<close>

definition resizedChannel :: "ImageData \<Rightarrow> nat \<Rightarrow> nat \<Rightarrow> nat \<Rightarrow> real" where
  "resizedChannel img ch row col =
     bilinear (\<lambda>r q. channelByte img (4 * (r * dataWidth img + q) + ch))
       (dataHeight img) (dataWidth img) 48 48 row col"

subsection \<open>Sample collaborators and inputs\<close>

text \<open>
  Concrete collaborators on which the statements below are evaluated. The canvas holds a
  100 by 100 image, accepts every drawing, and refuses an empty rectangle as a browser does;
  pixel data and tensors carry no content.
\<close>

definition sampleContext :: "unit CanvasRenderingContext2D" where
  "sampleContext =
     \<lparr>drawImage = (\<lambda>img dx dy dw dh. Inr ()),
      getImageData = (\<lambda>x y w h. if w = 0 \<or> h = 0 then Inl HostError else Inr ())\<rparr>"

definition sampleEnv :: "(unit, unit) Env" where
  "sampleEnv =
     \<lparr>imageRef = Some \<lparr>width = 100, height = 100\<rparr>,
      canvasRef = Some \<lparr>getContext = Some sampleContext\<rparr>,
      imageTensor = (\<lambda>faceData. Inr ())\<rparr>"

definition findsFaces :: "Face list \<Rightarrow> unit FaceDetector" where
  "findsFaces faces imageData = Inr faces"

definition failingDetector :: "unit FaceDetector" where
  "failingDetector imageData = Inl HostError"

definition answers :: "real list list \<Rightarrow> unit EmotionDetector" where
  "answers predictions tensor = Inr predictions"

definition sampleState ::
  "unit FaceDetector \<Rightarrow> unit EmotionDetector \<Rightarrow> (unit, unit) AppState" where
  "sampleState faceModel emotionModel =
     \<lparr>selectedImage = Some ''data:image/png;base64,iVBORw0KGgo='',
      prediction = None,
      emotionPredictions = None,
      isLoading = False,
      models = \<lparr>faceDetector = Some faceModel, emotionDetector = Some emotionModel\<rparr>\<rparr>"

text \<open>A face whose left reference lies right of the right one (eye span 50).\<close>

definition frontalFace :: Face where
  "frontalFace = \<lparr>landmarks = [(40, 45), (60, 45), (50, 60), (50, 75), (25, 55), (75, 55)]\<rparr>"

text \<open>A face whose two reference points share one x coordinate.\<close>

definition degenerateFace :: Face where
  "degenerateFace = \<lparr>landmarks = [(40, 45), (40, 45), (50, 60), (50, 75), (40, 55), (40, 55)]\<rparr>"

definition happyVector :: "real list" where
  "happyVector = [0.01, 0.00, 0.00, 0.95, 0.02, 0.01, 0.01]"

definition longVector :: "real list" where
  "longVector = [0.125, 0.125, 0.125, 0.125, 0.125, 0.125, 0.125, 0.125]"

text \<open>The data URL of a second image, chosen while a request is under way.\<close>

definition secondImage :: string where
  "secondImage = ''data:image/png;base64,c2Vjb25k''"

text \<open>A crop of two by two opaque pixels: white, black, black, white.\<close>

definition checkerboard :: ImageData where
  "checkerboard =
     \<lparr>dataWidth = 2, dataHeight = 2,
      data = [255, 255, 255, 255,  0, 0, 0, 255,
              0, 0, 0, 255,  255, 255, 255, 255]\<rparr>"

(* ---------- lemmas ---------- *)

section \<open>Helper lemmas\<close>

subsection \<open>Reading arrays\<close>

lemma at_index_in: "i < length xs \<Longrightarrow> at_index xs i = Some (xs ! i)"
  by (simp add: at_index_def)

lemma at_index_emotions:
  "at_index emotions i = (if i < 7 then Some (emotions ! i) else None)"
  by (simp add: at_index_def emotions_def)

lemma length_emotionResults: "length (emotionResults probs) = length probs"
  by (simp add: emotionResults_def)

lemma nth_emotionResults:
  "i < length probs \<Longrightarrow>
   emotionResults probs ! i = \<lparr>emotion = at_index emotions i, probability = probs ! i * 100\<rparr>"
  by (simp add: emotionResults_def)

subsection \<open>The sort: same entries, descending, stable\<close>

lemma mset_insert_sorted: "mset (insert_sorted cmp a xs) = add_mset a (mset xs)"
  by (induction xs) simp_all

lemma mset_array_sort: "mset (array_sort cmp xs) = mset xs"
  by (induction xs) (simp_all add: mset_insert_sorted)

lemma set_array_sort: "set (array_sort cmp xs) = set xs"
  using mset_array_sort [of cmp xs] by (metis set_mset_mset)

lemma set_insert_sorted: "set (insert_sorted cmp a xs) = insert a (set xs)"
  using mset_insert_sorted [of cmp a xs] by (metis set_mset_mset set_mset_add_mset_insert)

lemma descending_insert_sorted:
  "sorted_wrt (\<lambda>a b. f a \<ge> f b) xs \<Longrightarrow>
   sorted_wrt (\<lambda>a b. (f a :: real) \<ge> f b) (insert_sorted (\<lambda>a b. f b - f a) c xs)"
proof (induction xs)
  case Nil
  show ?case by simp
next
  case (Cons d ds)
  show ?case
  proof (cases "f d - f c \<le> 0")
    case True
    with Cons.prems show ?thesis by auto
  next
    case False
    with Cons show ?thesis by (auto simp: set_insert_sorted)
  qed
qed

lemma descending_array_sort:
  "sorted_wrt (\<lambda>a b. (f a :: real) \<ge> f b) (array_sort (\<lambda>a b. f b - f a) xs)"
  by (induction xs) (simp_all add: descending_insert_sorted)

lemma filter_insert_sorted_other:
  "\<not> P c \<Longrightarrow> filter P (insert_sorted cmp c xs) = filter P xs"
  by (induction xs) simp_all

lemma filter_insert_sorted_tie:
  "filter (\<lambda>e. f e = f c) (insert_sorted (\<lambda>a b. f b - (f a :: real)) c xs) =
     c # filter (\<lambda>e. f e = f c) xs"
  by (induction xs) auto

lemma array_sort_stable:
  "filter (\<lambda>e. f e = p) (array_sort (\<lambda>a b. f b - (f a :: real)) xs) = filter (\<lambda>e. f e = p) xs"
proof (induction xs)
  case Nil
  show ?case by simp
next
  case (Cons c cs)
  show ?case
  proof (cases "f c = p")
    case True
    then show ?thesis using Cons.IH filter_insert_sorted_tie [of f c] by auto
  next
    case False
    then show ?thesis using Cons.IH by (simp add: filter_insert_sorted_other)
  qed
qed

subsection \<open>The crop arithmetic\<close>

lemma half_positive: "(r::real) < l \<Longrightarrow> 0 < (l - r) / 2 + 5"
  by (simp add: field_simps)

lemma size_positive_iff: "(0 < 2 * (((l::real) - r) / 2 + 5)) = (r - l < 10)"
proof -
  have "(0 < 2 * ((l - r) / 2 + 5)) = (r * 2 < l * 2 + 20)"
    by (simp add: field_simps)
  also have "\<dots> = (r - l < 10)"
    by linarith
  finally show ?thesis .
qed

lemma cropRegion_six:
  assumes "6 \<le> length lms"
  shows "cropRegion lms =
     Inr \<lparr>sx = fst (lms ! 2) - ((fst (lms ! 5) - fst (lms ! 4)) / 2 + 5),
          sy = snd (lms ! 2) - ((fst (lms ! 5) - fst (lms ! 4)) / 2 + 5),
          sw = 2 * ((fst (lms ! 5) - fst (lms ! 4)) / 2 + 5),
          sh = 2 * ((fst (lms ! 5) - fst (lms ! 4)) / 2 + 5)\<rparr>"
proof -
  have reads: "at_index lms 2 = Some (lms ! 2)" "at_index lms 4 = Some (lms ! 4)"
    "at_index lms 5 = Some (lms ! 5)"
    using assms by (simp_all add: at_index_in)
  show ?thesis
    unfolding cropRegion_def reads Let_def by simp
qed

subsection \<open>A throw leaves the state as it was when the block was entered\<close>

lemma analyzeCrop_thrown:
  "analyzeCrop env emotionModel faceData s = (Thrown e, s') \<Longrightarrow> s' = s"
  by (auto simp: analyzeCrop_def split: sum.splits option.splits)

lemma analyzeFace_thrown:
  "analyzeFace env ctx emotionModel face s = (Thrown e, s') \<Longrightarrow> s' = s"
  by (auto simp: analyzeFace_def split: sum.splits dest: analyzeCrop_thrown)

lemma tryBlock_thrown:
  "tryBlock env img faceModel emotionModel s = (Thrown e, s') \<Longrightarrow> s' = s\<lparr>isLoading := True\<rparr>"
  by (auto simp: tryBlock_def Let_def split: sum.splits option.splits list.splits
      dest: analyzeFace_thrown)

subsection \<open>The phases of a request\<close>

lemma tryBlock_phases:
  "tryBlock env img faceModel emotionModel s =
     (case untilFaces env img faceModel s of
        Inl ended \<Rightarrow> ended
      | Inr (ctx, awaited, waiting) \<Rightarrow> afterFaces env ctx emotionModel awaited waiting)"
  by (simp add: tryBlock_def untilFaces_def afterFaces_def Let_def
      split: option.splits sum.splits list.splits)

lemma detectEmotion_uninterrupted:
  "detectEmotionInterleaved env (\<lambda>s. s) s = detectEmotion env s"
  by (simp add: detectEmotionInterleaved_def detectEmotion_def tryBlock_phases
      split: option.splits sum.splits prod.splits)






subsection \<open>The preprocessing chain\<close>

lemma source_floor_less:
  assumes "i < n" and "0 < h"
  shows "nat \<lfloor>real i * (real h / real n)\<rfloor> < h"
proof -
  have "real i * (real h / real n) < real h"
    using assms by (simp add: field_simps)
  then have "\<lfloor>real i * (real h / real n)\<rfloor> < int h"
    by linarith
  with assms(2) show ?thesis by linarith
qed

lemma bilinear_cong:
  assumes same: "\<And>r q. r < h \<Longrightarrow> q < w \<Longrightarrow> px r q = px' r q"
    and "0 < h" and "0 < w" and "row < newHeight" and "col < newWidth"
  shows "bilinear px h w newHeight newWidth row col = bilinear px' h w newHeight newWidth row col"
proof -
  have y0: "nat \<lfloor>real row * (real h / real newHeight)\<rfloor> < h"
    using assms(4,2) by (rule source_floor_less)
  have x0: "nat \<lfloor>real col * (real w / real newWidth)\<rfloor> < w"
    using assms(5,3) by (rule source_floor_less)
  have y1: "min (h - 1) (nat \<lceil>real row * (real h / real newHeight)\<rceil>) < h"
    using assms(2) by linarith
  have x1: "min (w - 1) (nat \<lceil>real col * (real w / real newWidth)\<rceil>) < w"
    using assms(3) by linarith
  show ?thesis
    unfolding bilinear_def Let_def
    by (simp only: same [OF y0 x0] same [OF y0 x1] same [OF y1 x0] same [OF y1 x1])
qed

lemma flat_index_less: "(p::nat) < n \<Longrightarrow> ch < 3 \<Longrightarrow> p * 3 + ch < n * 3"
  by arith

lemma pixel_index_less:
  assumes "r < h" and "q < (w::nat)"
  shows "r * w + q < h * w"
proof -
  have "r * w + q < Suc r * w" using assms(2) by simp
  also have "\<dots> \<le> h * w" using assms(1) by (intro mult_le_mono1) simp
  finally show ?thesis .
qed

lemma div_three: "ch < 3 \<Longrightarrow> (p * 3 + ch) div 3 = (p::nat)"
  by simp

lemma mod_three: "ch < 3 \<Longrightarrow> (p * 3 + ch) mod 3 = (ch::nat)"
  by simp

lemma elements_fromPixels:
  assumes "r < dataHeight img" and "q < dataWidth img" and "ch < 3"
  shows "elements (fromPixels img) ! ((r * dataWidth img + q) * 3 + ch) =
           channelByte img (4 * (r * dataWidth img + q) + ch)"
proof -
  have "(r * dataWidth img + q) * 3 + ch < dataHeight img * dataWidth img * 3"
    using pixel_index_less [OF assms(1,2)] assms(3) by (rule flat_index_less)
  moreover have "((r * dataWidth img + q) * 3 + ch) div 3 = r * dataWidth img + q"
    using assms(3) by (rule div_three)
  moreover have "((r * dataWidth img + q) * 3 + ch) mod 3 = ch"
    using assms(3) by (rule mod_three)
  ultimately show ?thesis
    by (simp only: fromPixels_def Tensor.simps nth_map length_upt minus_nat.diff_0 nth_upt add_0)
qed

lemma index_parts:
  assumes "row < (48::nat)" and "col < (48::nat)" and "ch < (3::nat)"
  shows "((row * 48 + col) * 3 + ch) mod 3 = ch"
    and "(((row * 48 + col) * 3 + ch) div 3) mod 48 = col"
    and "(((row * 48 + col) * 3 + ch) div (3 * 48)) mod 48 = row"
    and "((row * 48 + col) * 3 + ch) div (3 * 48 * 48) = 0"
proof -
  have pixel: "((row * 48 + col) * 3 + ch) div 3 = row * 48 + col"
    using assms(3) by (rule div_three)
  have line: "(row * 48 + col) div 48 = row"
    using assms(2) by simp
  show "((row * 48 + col) * 3 + ch) mod 3 = ch"
    using assms(3) by (rule mod_three)
  show "(((row * 48 + col) * 3 + ch) div 3) mod 48 = col"
    unfolding pixel using assms(2) by simp
  show "(((row * 48 + col) * 3 + ch) div (3 * 48)) mod 48 = row"
    unfolding div_mult2_eq pixel line using assms(1) by simp
  show "((row * 48 + col) * 3 + ch) div (3 * 48 * 48) = 0"
    unfolding div_mult2_eq pixel line using assms(1) by simp
qed

lemma resized_value:
  assumes "0 < dataHeight img" and "0 < dataWidth img"
    and "row < 48" and "col < 48" and "ch < 3"
  shows "bilinearValue (elements (fromPixels img)) (dataHeight img) (dataWidth img) 3 48 48
           ((row * 48 + col) * 3 + ch) = resizedChannel img ch row col"
proof -
  have "bilinearValue (elements (fromPixels img)) (dataHeight img) (dataWidth img) 3 48 48
           ((row * 48 + col) * 3 + ch) =
        bilinear (\<lambda>r q. elements (fromPixels img) ! ((r * dataWidth img + q) * 3 + ch))
          (dataHeight img) (dataWidth img) 48 48 row col"
    unfolding bilinearValue_def Let_def index_parts [OF assms(3-5)] by simp
  also have "\<dots> = resizedChannel img ch row col"
    unfolding resizedChannel_def
  proof (rule bilinear_cong)
    fix r q
    assume "r < dataHeight img" and "q < dataWidth img"
    then show "elements (fromPixels img) ! ((r * dataWidth img + q) * 3 + ch) =
        channelByte img (4 * (r * dataWidth img + q) + ch)"
      using assms(5) by (rule elements_fromPixels)
  qed (use assms in simp_all)
  finally show ?thesis .
qed

lemma resize_fromPixels:
  "resizeBilinear (nh, nw) (fromPixels img) =
     Inr \<lparr>dtype = Float32, shape = [nh, nw, 3],
          elements = map (bilinearValue (elements (fromPixels img)) (dataHeight img)
                           (dataWidth img) 3 nh nw) [0..<nh * nw * 3]\<rparr>"
  by (simp add: resizeBilinear_def fromPixels_def)

lemma mean_channels:
  assumes "shape t = [nh, nw, 3]"
  shows "mean 2 t =
     Inr \<lparr>dtype = dtype t, shape = [nh, nw],
          elements = map (\<lambda>k. (elements t ! (k * 3) + elements t ! (k * 3 + 1)
                                  + elements t ! (k * 3 + 2)) / 3) [0..<nh * nw]\<rparr>"
proof -
  have three: "[0..<3] = [0, 1, 2]"
    by (simp add: upt_rec)
  show ?thesis
    by (simp add: mean_def assms Let_def three)
qed

lemma expand_both:
  assumes "shape t = [nh, nw]"
  shows "(case expandDims 0 (toFloat t) of Inl e \<Rightarrow> Inl e
          | Inr batched \<Rightarrow> expandDims (- 1) batched) =
         Inr \<lparr>dtype = Float32, shape = [1, nh, nw, 1], elements = elements t\<rparr>"
  by (simp add: expandDims_def toFloat_def assms)

lemma chain_general:
  "(case resizeBilinear (nh, nw) (fromPixels img) of Inl e \<Rightarrow> Inl e | Inr resized \<Rightarrow>
   (case mean 2 resized of Inl e \<Rightarrow> Inl e | Inr averaged \<Rightarrow>
   (case expandDims 0 (toFloat averaged) of Inl e \<Rightarrow> Inl e | Inr batched \<Rightarrow>
      expandDims (- 1) batched))) =
     Inr \<lparr>dtype = Float32, shape = [1, nh, nw, 1],
          elements = map (\<lambda>k. (bilinearValue (elements (fromPixels img)) (dataHeight img)
                                    (dataWidth img) 3 nh nw (k * 3)
                                 + bilinearValue (elements (fromPixels img)) (dataHeight img)
                                    (dataWidth img) 3 nh nw (k * 3 + 1)
                                 + bilinearValue (elements (fromPixels img)) (dataHeight img)
                                    (dataWidth img) 3 nh nw (k * 3 + 2)) / 3)
                       [0..<nh * nw]\<rparr>"
proof -
  let ?bv = "bilinearValue (elements (fromPixels img)) (dataHeight img) (dataWidth img) 3 nh nw"
  let ?rz = "\<lparr>dtype = Float32, shape = [nh, nw, 3], elements = map ?bv [0..<nh * nw * 3]\<rparr>"
  let ?avg = "\<lparr>dtype = Float32, shape = [nh, nw],
          elements = map (\<lambda>k. (?bv (k * 3) + ?bv (k * 3 + 1) + ?bv (k * 3 + 2)) / 3)
                       [0..<nh * nw]\<rparr>"
  have el: "map (\<lambda>k. (elements ?rz ! (k * 3) + elements ?rz ! (k * 3 + 1)
                                  + elements ?rz ! (k * 3 + 2)) / 3) [0..<nh * nw] =
            map (\<lambda>k. (?bv (k * 3) + ?bv (k * 3 + 1) + ?bv (k * 3 + 2)) / 3) [0..<nh * nw]"
    by (rule map_cong) simp_all
  have m: "mean 2 ?rz = Inr ?avg"
    using mean_channels [of ?rz nh nw] el by simp
  have e: "(case expandDims 0 (toFloat ?avg) of Inl e \<Rightarrow> Inl e
          | Inr batched \<Rightarrow> expandDims (- 1) batched) =
         Inr \<lparr>dtype = Float32, shape = [1, nh, nw, 1], elements = elements ?avg\<rparr>"
    by (rule expand_both) simp
  show ?thesis
    unfolding resize_fromPixels by (simp only: sum.case m e Tensor.simps)
qed

lemma chain_result:
  "imageTensorChain img =
     Inr \<lparr>dtype = Float32, shape = [1, 48, 48, 1],
          elements = map (\<lambda>k. (bilinearValue (elements (fromPixels img)) (dataHeight img)
                                    (dataWidth img) 3 48 48 (k * 3)
                                 + bilinearValue (elements (fromPixels img)) (dataHeight img)
                                    (dataWidth img) 3 48 48 (k * 3 + 1)
                                 + bilinearValue (elements (fromPixels img)) (dataHeight img)
                                    (dataWidth img) 3 48 48 (k * 3 + 2)) / 3)
                       [0..<48 * 48]\<rparr>"
  unfolding imageTensorChain_def by (rule chain_general)

lemma cell_index_less: "row < (48::nat) \<Longrightarrow> col < (48::nat) \<Longrightarrow> row * 48 + col < 48 * 48"
  by arith

lemma ceiling_half: "\<lceil>1 / 2 :: real\<rceil> = 1"
  by (simp add: ceiling_eq_iff)

lemma checkerboard_corner: "ch < 3 \<Longrightarrow> resizedChannel checkerboard ch 0 0 = 255"
proof -
  assume "ch < 3"
  then have "ch = 0 \<or> ch = 1 \<or> ch = 2" by arith
  then show ?thesis
    by (auto simp add: resizedChannel_def bilinear_def checkerboard_def Let_def
        channelByte_def at_index_def)
qed

lemma checkerboard_middle:
  "ch < 3 \<Longrightarrow> resizedChannel checkerboard ch 12 12 = 127.5"
proof -
  assume "ch < 3"
  then have "ch = 0 \<or> ch = 1 \<or> ch = 2" by arith
  then show ?thesis
    by (auto simp add: resizedChannel_def bilinear_def checkerboard_def Let_def
        channelByte_def at_index_def ceiling_half)
qed

section \<open>Ranking\<close>

text \<open>
  C1. For every raw probability vector \<open>probs\<close>, the ranked result is the sort of the
  filtered entries (the filter runs first); it holds no entry with probability at most
  0.0001; it is non-increasing in probability; entries of equal probability keep the order
  of their positions in the vector (for each value \<open>p\<close>, the entries with probability
  \<open>p\<close> are those of the filtered list, in the same order); it holds exactly the entries
  that pass the filter; and entry \<open>i\<close> before filtering is the label at position \<open>i\<close>
  with the raw value times 100.
\<close>

theorem ranked_filtered_sorted_stable:
  "rankedResult (emotionResults probs) =
     array_sort (\<lambda>a b. probability b - probability a)
       (filter (\<lambda>e. probability e > 0.0001) (emotionResults probs))
   \<and> (\<forall>e \<in> set (rankedResult (emotionResults probs)). \<not> probability e \<le> 0.0001)
   \<and> sorted_wrt (\<lambda>a b. probability a \<ge> probability b) (rankedResult (emotionResults probs))
   \<and> (\<forall>p. filter (\<lambda>e. probability e = p) (rankedResult (emotionResults probs)) =
           filter (\<lambda>e. probability e = p)
             (filter (\<lambda>e. probability e > 0.0001) (emotionResults probs)))
   \<and> mset (rankedResult (emotionResults probs)) =
       mset (filter (\<lambda>e. probability e > 0.0001) (emotionResults probs))
   \<and> length (emotionResults probs) = length probs
   \<and> (\<forall>i < length probs. emotionResults probs ! i =
         \<lparr>emotion = at_index emotions i, probability = probs ! i * 100\<rparr>)"
proof -
  let ?kept = "filter (\<lambda>e. probability e > 0.0001) (emotionResults probs)"
  have def: "rankedResult (emotionResults probs) =
      array_sort (\<lambda>a b. probability b - probability a) ?kept"
    by (simp add: rankedResult_def)
  have above: "\<forall>e \<in> set (rankedResult (emotionResults probs)). \<not> probability e \<le> 0.0001"
    by (simp add: def set_array_sort)
  have desc: "sorted_wrt (\<lambda>a b. probability a \<ge> probability b)
      (rankedResult (emotionResults probs))"
    unfolding def by (rule descending_array_sort)
  have stable: "\<forall>p. filter (\<lambda>e. probability e = p) (rankedResult (emotionResults probs)) =
      filter (\<lambda>e. probability e = p) ?kept"
    unfolding def by (simp only: array_sort_stable) simp
  have same: "mset (rankedResult (emotionResults probs)) = mset ?kept"
    unfolding def by (rule mset_array_sort)
  have scaled: "\<forall>i < length probs. emotionResults probs ! i =
      \<lparr>emotion = at_index emotions i, probability = probs ! i * 100\<rparr>"
    by (simp add: nth_emotionResults)
  from def above desc stable same length_emotionResults scaled show ?thesis
    by blast
qed

text \<open>
  The statement of C1 at a vector with a tie and with an entry that scales to exactly
  0.0001, which is dropped.
\<close>

theorem ranked_filtered_sorted_stable_witness:
  "emotionResults [0.25, 0.000001, 0.5, 0.25] =
     [\<lparr>emotion = Some ''Angry'', probability = 25\<rparr>,
      \<lparr>emotion = Some ''Disgust'', probability = 0.0001\<rparr>,
      \<lparr>emotion = Some ''Fear'', probability = 50\<rparr>,
      \<lparr>emotion = Some ''Happy'', probability = 25\<rparr>]
   \<and> rankedResult (emotionResults [0.25, 0.000001, 0.5, 0.25]) =
     [\<lparr>emotion = Some ''Fear'', probability = 50\<rparr>,
      \<lparr>emotion = Some ''Angry'', probability = 25\<rparr>,
      \<lparr>emotion = Some ''Happy'', probability = 25\<rparr>]
   \<and> sorted_wrt (\<lambda>a b. probability a \<ge> probability b)
       (rankedResult (emotionResults [0.25, 0.000001, 0.5, 0.25]))"
  using ranked_filtered_sorted_stable [of "[0.25, 0.000001, 0.5, 0.25]"]
  by (simp add: rankedResult_def emotionResults_def emotions_def at_index_def upt_rec)

text \<open>
  C2. The raw vector \<open>[0.01, 0.00, 0.00, 0.95, 0.02, 0.01, 0.01]\<close>, labelled by position,
  scaled by 100, filtered and sorted, is Happy 95, Neutral 2, Angry 1, Sad 1, Surprised 1:
  the three entries with probability 1 stay in the order of their positions.
\<close>

theorem ranked_example:
  "rankedResult (emotionResults [0.01, 0.00, 0.00, 0.95, 0.02, 0.01, 0.01]) =
     [\<lparr>emotion = Some ''Happy'', probability = 95\<rparr>,
      \<lparr>emotion = Some ''Neutral'', probability = 2\<rparr>,
      \<lparr>emotion = Some ''Angry'', probability = 1\<rparr>,
      \<lparr>emotion = Some ''Sad'', probability = 1\<rparr>,
      \<lparr>emotion = Some ''Surprised'', probability = 1\<rparr>]"
  by (simp add: rankedResult_def emotionResults_def emotions_def at_index_def upt_rec)

section \<open>Crop geometry\<close>

text \<open>
  C3. For every landmark list with at least 6 points in which the left reference (index 5)
  lies right of the right reference (index 4), the region passed to \<open>getImageData\<close> is
  \<open>{nose.x - half, nose.y - half, 2 * half, 2 * half}\<close> with
  \<open>half = (left.x - right.x) / 2 + 5\<close> and the nose at index 2; its width equals its
  height and is positive.
\<close>

theorem cropRegion_square:
  assumes "6 \<le> length lms" and "fst (lms ! 4) < fst (lms ! 5)"
  shows "(let half = (fst (lms ! 5) - fst (lms ! 4)) / 2 + 5 in
            cropRegion lms =
              Inr \<lparr>sx = fst (lms ! 2) - half, sy = snd (lms ! 2) - half,
                   sw = 2 * half, sh = 2 * half\<rparr>)
         \<and> (\<exists>r. cropRegion lms = Inr r \<and> sw r = sh r \<and> 0 < sw r)"
proof -
  define half where "half = (fst (lms ! 5) - fst (lms ! 4)) / 2 + 5"
  have region: "cropRegion lms =
      Inr \<lparr>sx = fst (lms ! 2) - half, sy = snd (lms ! 2) - half,
           sw = 2 * half, sh = 2 * half\<rparr>"
    unfolding half_def by (rule cropRegion_six [OF assms(1)])
  have "0 < half"
    unfolding half_def using assms(2) by (rule half_positive)
  then have "0 < 2 * half" by simp
  with region have "\<exists>r. cropRegion lms = Inr r \<and> sw r = sh r \<and> 0 < sw r"
    by simp
  with region show ?thesis
    unfolding Let_def half_def by blast
qed

text \<open>C3 at a face with eye span 50: half is 30, the region is 60 by 60 at (20, 30).\<close>

theorem cropRegion_square_witness:
  "6 \<le> length (landmarks frontalFace)
   \<and> fst (landmarks frontalFace ! 4) < fst (landmarks frontalFace ! 5)
   \<and> cropRegion (landmarks frontalFace) = Inr \<lparr>sx = 20, sy = 30, sw = 60, sh = 60\<rparr>"
  using cropRegion_square [of "landmarks frontalFace"]
  by (simp add: frontalFace_def Let_def)

text \<open>
  C4, as claimed, fails: a face whose two reference points have the same x coordinate is not
  rejected. Its region is 10 by 10, the pixels are read, and the request ends with the
  success status and predictions.
\<close>

theorem degenerate_landmarks_counterexample:
  "6 \<le> length (landmarks degenerateFace)
   \<and> fst (landmarks degenerateFace ! 5) \<le> fst (landmarks degenerateFace ! 4)
   \<and> cropRegion (landmarks degenerateFace) = Inr \<lparr>sx = 45, sy = 55, sw = 10, sh = 10\<rparr>
   \<and> detectEmotion sampleEnv (sampleState (findsFaces [degenerateFace]) (answers [happyVector])) =
       (sampleState (findsFaces [degenerateFace]) (answers [happyVector]))
         \<lparr>prediction := Some ''Face detected and emotion analyzed!'',
          emotionPredictions := Some (emotionResults happyVector)\<rparr>"
  by (simp add: degenerateFace_def cropRegion_def at_index_def Let_def detectEmotion_def
      sampleEnv_def sampleState_def sampleContext_def findsFaces_def answers_def falsy_def
      tryBlock_def analyzeFace_def analyzeCrop_def catchFinally_def)

text \<open>
  C4, amended. For every face with at least 6 landmarks and \<open>left.x \<le> right.x\<close>, the
  code checks nothing about the geometry: it computes \<open>half = (left.x - right.x) / 2 + 5\<close>
  as in the other case and always asks \<open>getImageData\<close> for
  \<open>{nose.x - half, nose.y - half, 2 * half, 2 * half}\<close>; the request throws or goes on to
  the classifier as that call throws or returns. Nothing is clamped: the size is positive
  exactly when \<open>right.x - left.x < 10\<close>.
\<close>

theorem no_geometry_check:
  assumes "6 \<le> length (landmarks face)"
    and "fst (landmarks face ! 5) \<le> fst (landmarks face ! 4)"
  shows "(let half = (fst (landmarks face ! 5) - fst (landmarks face ! 4)) / 2 + 5 in
            analyzeFace env ctx emotionModel face s =
              (case getImageData ctx (fst (landmarks face ! 2) - half)
                      (snd (landmarks face ! 2) - half) (2 * half) (2 * half) of
                 Inl e \<Rightarrow> (Thrown e, s)
               | Inr faceData \<Rightarrow> analyzeCrop env emotionModel faceData s)
            \<and> (0 < 2 * half \<longleftrightarrow> fst (landmarks face ! 4) - fst (landmarks face ! 5) < 10))"
proof -
  define half where "half = (fst (landmarks face ! 5) - fst (landmarks face ! 4)) / 2 + 5"
  have region: "cropRegion (landmarks face) =
      Inr \<lparr>sx = fst (landmarks face ! 2) - half, sy = snd (landmarks face ! 2) - half,
           sw = 2 * half, sh = 2 * half\<rparr>"
    unfolding half_def by (rule cropRegion_six [OF assms(1)])
  have step: "analyzeFace env ctx emotionModel face s =
      (case getImageData ctx (fst (landmarks face ! 2) - half)
              (snd (landmarks face ! 2) - half) (2 * half) (2 * half) of
         Inl e \<Rightarrow> (Thrown e, s)
       | Inr faceData \<Rightarrow> analyzeCrop env emotionModel faceData s)"
    unfolding analyzeFace_def region by simp
  have size: "0 < 2 * half \<longleftrightarrow> fst (landmarks face ! 4) - fst (landmarks face ! 5) < 10"
    unfolding half_def by (rule size_positive_iff)
  from step size show ?thesis
    unfolding Let_def half_def by blast
qed

text \<open>The amended C4 at the face with coinciding reference points.\<close>

theorem no_geometry_check_witness:
  "6 \<le> length (landmarks degenerateFace)
   \<and> fst (landmarks degenerateFace ! 5) \<le> fst (landmarks degenerateFace ! 4)
   \<and> analyzeFace sampleEnv sampleContext (answers [happyVector]) degenerateFace
        (sampleState (findsFaces [degenerateFace]) (answers [happyVector])) =
      (case getImageData sampleContext 45 55 10 10 of
         Inl e \<Rightarrow> (Thrown e, sampleState (findsFaces [degenerateFace]) (answers [happyVector]))
       | Inr faceData \<Rightarrow>
           analyzeCrop sampleEnv (answers [happyVector]) faceData
             (sampleState (findsFaces [degenerateFace]) (answers [happyVector])))"
  using no_geometry_check [of degenerateFace sampleEnv sampleContext "answers [happyVector]"
      "sampleState (findsFaces [degenerateFace]) (answers [happyVector])"]
  by (simp add: degenerateFace_def Let_def)

section \<open>Classifier output of any length\<close>

text \<open>
  C5, as claimed, fails: a classifier output of 8 values raises nothing. The request ends
  with the success status and 8 predictions, the last one with an undefined label.
\<close>

theorem long_vector_counterexample:
  "length longVector \<noteq> 7
   \<and> prediction (detectEmotion sampleEnv
        (sampleState (findsFaces [frontalFace]) (answers [longVector]))) =
       Some ''Face detected and emotion analyzed!''
   \<and> map_option length (emotionPredictions (detectEmotion sampleEnv
        (sampleState (findsFaces [frontalFace]) (answers [longVector])))) = Some 8
   \<and> map_option last (emotionPredictions (detectEmotion sampleEnv
        (sampleState (findsFaces [frontalFace]) (answers [longVector])))) =
       Some \<lparr>emotion = None, probability = 12.5\<rparr>"
  by (simp add: longVector_def frontalFace_def cropRegion_def at_index_def Let_def
      detectEmotion_def sampleEnv_def sampleState_def sampleContext_def findsFaces_def
      answers_def falsy_def tryBlock_def analyzeFace_def analyzeCrop_def catchFinally_def
      emotionResults_def emotions_def upt_rec)

text \<open>
  C5, amended. For a classifier output whose first row \<open>probs\<close> has any length, once the
  preprocessing and the classifier call have returned, the code signals no error: the
  request ends with the status "Face detected and emotion analyzed!" and one prediction per
  value, neither truncated nor padded; prediction \<open>i\<close> carries the label at position
  \<open>i\<close> for \<open>i < 7\<close>, an undefined label beyond, and the raw value times 100.
\<close>

theorem any_length_accepted:
  assumes "imageTensor env faceData = Inr tensor"
    and "emotionModel tensor = Inr (probs # others)"
  shows "catchFinally (analyzeCrop env emotionModel faceData s) =
           s\<lparr>emotionPredictions := Some (emotionResults probs),
             prediction := Some ''Face detected and emotion analyzed!'',
             isLoading := False\<rparr>
         \<and> length (emotionResults probs) = length probs
         \<and> (\<forall>i < length probs. emotionResults probs ! i =
               \<lparr>emotion = (if i < 7 then Some (emotions ! i) else None),
                probability = probs ! i * 100\<rparr>)"
proof -
  have "analyzeCrop env emotionModel faceData s =
      (Normal, s\<lparr>emotionPredictions := Some (emotionResults probs),
                 prediction := Some ''Face detected and emotion analyzed!''\<rparr>)"
    by (simp add: analyzeCrop_def assms at_index_def)
  then have final: "catchFinally (analyzeCrop env emotionModel faceData s) =
      s\<lparr>emotionPredictions := Some (emotionResults probs),
        prediction := Some ''Face detected and emotion analyzed!'',
        isLoading := False\<rparr>"
    by (simp add: catchFinally_def)
  have entries: "\<forall>i < length probs. emotionResults probs ! i =
      \<lparr>emotion = (if i < 7 then Some (emotions ! i) else None),
       probability = probs ! i * 100\<rparr>"
    by (simp add: nth_emotionResults at_index_emotions)
  from final entries length_emotionResults show ?thesis
    by blast
qed

text \<open>The amended C5 at an output of two values.\<close>

theorem any_length_accepted_witness:
  "imageTensor sampleEnv () = Inr ()
   \<and> answers [[0.5, 0.5]] () = Inr ([0.5, 0.5] # [])
   \<and> catchFinally (analyzeCrop sampleEnv (answers [[0.5, 0.5]]) ()
         (sampleState (findsFaces [frontalFace]) (answers [[0.5, 0.5]]))) =
       (sampleState (findsFaces [frontalFace]) (answers [[0.5, 0.5]]))
         \<lparr>emotionPredictions := Some (emotionResults [0.5, 0.5]),
          prediction := Some ''Face detected and emotion analyzed!'',
          isLoading := False\<rparr>
   \<and> emotionResults [0.5, 0.5] =
       [\<lparr>emotion = Some ''Angry'', probability = 50\<rparr>,
        \<lparr>emotion = Some ''Disgust'', probability = 50\<rparr>]"
  using any_length_accepted [of sampleEnv "()" "()" "answers [[0.5, 0.5]]" "[0.5, 0.5]" "[]"
      "sampleState (findsFaces [frontalFace]) (answers [[0.5, 0.5]])"]
  by (simp add: sampleEnv_def answers_def emotionResults_def emotions_def at_index_def upt_rec)

section \<open>Outcomes of a detection request\<close>

text \<open>
  C6. For every request that passes the guard, draws the image and reads its pixels, and
  whose face detector returns no face, the final state has the status "No faces detected",
  no predictions (null) and the loading flag cleared, the rest unchanged; the view shows
  that status and no prediction list.
\<close>

theorem no_faces_detected:
  assumes "\<not> falsy (selectedImage s)"
    and "imageRef env = Some img"
    and "faceDetector (models s) = Some faceModel"
    and "emotionDetector (models s) = Some emotionModel"
    and "canvasRef env = Some canvas"
    and "getContext canvas = Some ctx"
    and "drawImage ctx img 0 0 (real (width img)) (real (height img)) = Inr u"
    and "getImageData ctx 0 0 (real (width img)) (real (height img)) = Inr imageData"
    and "faceModel imageData = Inr []"
  shows "detectEmotion env s =
           s\<lparr>prediction := Some ''No faces detected'', emotionPredictions := None,
             isLoading := False\<rparr>
         \<and> resultView (detectEmotion env s) =
           Some \<lparr>statusLine = ''No faces detected'', shown = None\<rparr>"
proof -
  have "tryBlock env img faceModel emotionModel s =
      (Normal, s\<lparr>isLoading := True, prediction := Some ''No faces detected'',
                 emotionPredictions := None\<rparr>)"
    by (simp add: tryBlock_def assms(5-9))
  then have "detectEmotion env s =
      s\<lparr>prediction := Some ''No faces detected'', emotionPredictions := None,
        isLoading := False\<rparr>"
    by (simp add: detectEmotion_def assms(1-4) catchFinally_def)
  then show ?thesis
    by (simp add: resultView_def)
qed

text \<open>C6 at the sample collaborators with a detector that finds no face.\<close>

theorem no_faces_detected_witness:
  "detectEmotion sampleEnv (sampleState (findsFaces []) (answers [happyVector])) =
     (sampleState (findsFaces []) (answers [happyVector]))
       \<lparr>prediction := Some ''No faces detected'', emotionPredictions := None,
        isLoading := False\<rparr>
   \<and> resultView (detectEmotion sampleEnv (sampleState (findsFaces []) (answers [happyVector]))) =
       Some \<lparr>statusLine = ''No faces detected'', shown = None\<rparr>"
  using no_faces_detected [of "sampleState (findsFaces []) (answers [happyVector])" sampleEnv
      "\<lparr>width = 100, height = 100\<rparr>" "findsFaces []" "answers [happyVector]"
      "\<lparr>getContext = Some sampleContext\<rparr>" sampleContext "()" "()"]
  by (simp add: sampleEnv_def sampleState_def sampleContext_def findsFaces_def falsy_def
      resultView_def)




section \<open>Uploading an image\<close>

text \<open>
  What \<open>handleImageUpload\<close> does on a load event with a string result: it stores the new
  image and sets the predictions and the status to null, and the view of the state it leaves
  shows no result block.
\<close>

lemma upload_clears_results:
  "handleImageUpload (Some (OnLoad (ResultString url))) s =
     s\<lparr>selectedImage := Some url, emotionPredictions := None, prediction := None\<rparr>
   \<and> emotionPredictions (handleImageUpload (Some (OnLoad (ResultString url))) s) = None
   \<and> prediction (handleImageUpload (Some (OnLoad (ResultString url))) s) = None
   \<and> resultView (handleImageUpload (Some (OnLoad (ResultString url))) s) = None"
  by (simp add: handleImageUpload_def resultView_def)

text \<open>
  C9. The claim is that, the handler having set predictions and status to null, results of an
  earlier request are never displayed beside a newly selected image. The code breaks it:
  the file input stays enabled while a request waits at line 105. A second image is
  uploaded then; the handler clears the results; the request resumes and lines 142-143 set
  the predictions computed for the first image and the success status. The final state
  holds the second image together with those predictions, and the view displays them.
\<close>

theorem stale_result_beside_new_image:
  "selectedImage (sampleState (findsFaces [frontalFace]) (answers [happyVector])) =
     Some ''data:image/png;base64,iVBORw0KGgo=''
   \<and> detectEmotionInterleaved sampleEnv
        (handleImageUpload (Some (OnLoad (ResultString secondImage))))
        (sampleState (findsFaces [frontalFace]) (answers [happyVector])) =
       (sampleState (findsFaces [frontalFace]) (answers [happyVector]))
         \<lparr>selectedImage := Some secondImage,
          emotionPredictions := Some (emotionResults happyVector),
          prediction := Some ''Face detected and emotion analyzed!''\<rparr>
   \<and> resultView (detectEmotionInterleaved sampleEnv
        (handleImageUpload (Some (OnLoad (ResultString secondImage))))
        (sampleState (findsFaces [frontalFace]) (answers [happyVector]))) =
       Some \<lparr>statusLine = ''Face detected and emotion analyzed!'',
             shown = Some (rankedResult (emotionResults happyVector))\<rparr>
   \<and> emotionPredictions (detectEmotionInterleaved sampleEnv
        (handleImageUpload (Some (OnLoad (ResultString secondImage))))
        (sampleState (findsFaces [frontalFace]) (answers [happyVector]))) =
       emotionPredictions
         (detectEmotion sampleEnv (sampleState (findsFaces [frontalFace]) (answers [happyVector])))"
  by (simp add: frontalFace_def cropRegion_def at_index_def Let_def untilFaces_def afterFaces_def
      detectEmotionInterleaved_def handleImageUpload_def resultView_def
      detectEmotion_def sampleEnv_def sampleState_def sampleContext_def findsFaces_def
      answers_def falsy_def tryBlock_def analyzeFace_def analyzeCrop_def catchFinally_def)

section \<open>A request that throws\<close>

text \<open>
  C10. For every request that passes the guard and whose \<open>try\<close> block ends by a throw,
  the final state differs from the initial one only in the status, now
  "Error detecting faces" (the loading flag is cleared again): the predictions are those
  from before the request.
\<close>

theorem thrown_keeps_predictions:
  assumes "\<not> falsy (selectedImage s)"
    and "imageRef env = Some img"
    and "faceDetector (models s) = Some faceModel"
    and "emotionDetector (models s) = Some emotionModel"
    and "fst (tryBlock env img faceModel emotionModel s) = Thrown e"
  shows "detectEmotion env s =
           s\<lparr>prediction := Some ''Error detecting faces'', isLoading := False\<rparr>
         \<and> emotionPredictions (detectEmotion env s) = emotionPredictions s"
proof -
  obtain s' where run: "tryBlock env img faceModel emotionModel s = (Thrown e, s')"
    using assms(5) by (cases "tryBlock env img faceModel emotionModel s") simp
  then have "s' = s\<lparr>isLoading := True\<rparr>"
    by (rule tryBlock_thrown)
  with run have "detectEmotion env s =
      s\<lparr>prediction := Some ''Error detecting faces'', isLoading := False\<rparr>"
    by (simp add: detectEmotion_def assms(1-4) catchFinally_def)
  then show ?thesis by simp
qed

text \<open>
  C10 at a state that holds the predictions of an earlier request, with a face detector
  that throws.
\<close>

theorem thrown_keeps_predictions_witness:
  "fst (tryBlock sampleEnv \<lparr>width = 100, height = 100\<rparr> failingDetector (answers [happyVector])
        ((sampleState failingDetector (answers [happyVector]))
           \<lparr>prediction := Some ''Face detected and emotion analyzed!'',
            emotionPredictions := Some (emotionResults happyVector)\<rparr>)) = Thrown HostError
   \<and> detectEmotion sampleEnv
        ((sampleState failingDetector (answers [happyVector]))
           \<lparr>prediction := Some ''Face detected and emotion analyzed!'',
            emotionPredictions := Some (emotionResults happyVector)\<rparr>) =
       (sampleState failingDetector (answers [happyVector]))
           \<lparr>prediction := Some ''Error detecting faces'',
            emotionPredictions := Some (emotionResults happyVector)\<rparr>"
  using thrown_keeps_predictions
    [of "(sampleState failingDetector (answers [happyVector]))
           \<lparr>prediction := Some ''Face detected and emotion analyzed!'',
            emotionPredictions := Some (emotionResults happyVector)\<rparr>"
      sampleEnv "\<lparr>width = 100, height = 100\<rparr>" failingDetector "answers [happyVector]" HostError]
  by (simp add: sampleEnv_def sampleState_def sampleContext_def failingDetector_def falsy_def
      tryBlock_def)

section \<open>The normalised tensor\<close>

text \<open>
  C8. For every non-empty crop (pixel data of positive width and height, square or not, of
  any size), the chain of lines 120-125 returns a tensor, of shape exactly
  \<open>[1, 48, 48, 1]\<close>, with floating-point elements; its element for cell \<open>(row, col)\<close>
  is the unweighted mean, sum divided by 3, of the red, green and blue channel of the
  bilinearly resized crop at that cell, in the scale of the source bytes: nothing rescales
  the range to [0, 1].
\<close>

theorem normalizer_shape_and_values:
  assumes "0 < dataHeight img" and "0 < dataWidth img"
  shows "\<exists>t. imageTensorChain img = Inr t
           \<and> dtype t = Float32
           \<and> shape t = [1, 48, 48, 1]
           \<and> length (elements t) = 48 * 48
           \<and> (\<forall>row < 48. \<forall>col < 48.
                 elements t ! (row * 48 + col) =
                   (resizedChannel img 0 row col + resizedChannel img 1 row col
                    + resizedChannel img 2 row col) / 3)"
proof -
  let ?bv = "bilinearValue (elements (fromPixels img)) (dataHeight img) (dataWidth img) 3 48 48"
  let ?t = "\<lparr>dtype = Float32, shape = [1, 48, 48, 1],
          elements = map (\<lambda>k. (?bv (k * 3) + ?bv (k * 3 + 1) + ?bv (k * 3 + 2)) / 3)
                       [0..<48 * 48]\<rparr>"
  have cell: "elements ?t ! (row * 48 + col) =
      (resizedChannel img 0 row col + resizedChannel img 1 row col
       + resizedChannel img 2 row col) / 3" if "row < 48" and "col < 48" for row col
  proof -
    have "elements ?t ! (row * 48 + col) =
        (?bv ((row * 48 + col) * 3) + ?bv ((row * 48 + col) * 3 + 1)
         + ?bv ((row * 48 + col) * 3 + 2)) / 3"
      using cell_index_less [OF that]
      by (simp only: Tensor.simps nth_map_upt minus_nat.diff_0 add_0)
    moreover have "?bv ((row * 48 + col) * 3) = resizedChannel img 0 row col"
      using resized_value [OF assms that, of 0] by simp
    moreover have "?bv ((row * 48 + col) * 3 + 1) = resizedChannel img 1 row col"
      using resized_value [OF assms that, of 1] by simp
    moreover have "?bv ((row * 48 + col) * 3 + 2) = resizedChannel img 2 row col"
      using resized_value [OF assms that, of 2] by simp
    ultimately show ?thesis by (simp only:)
  qed
  have "length (elements ?t) = 48 * 48"
    by (simp only: Tensor.simps length_map length_upt minus_nat.diff_0)
  with cell chain_result [of img] show ?thesis
    by (intro exI [of _ ?t]) (simp only: Tensor.simps, blast)
qed

text \<open>
  C8 at the two by two crop: the corner cell holds the white pixel's 255, and cell (12, 12),
  which lies midway between the four pixels, holds 127.5.
\<close>

theorem normalizer_shape_and_values_witness:
  "\<exists>t. imageTensorChain checkerboard = Inr t
       \<and> dtype t = Float32
       \<and> shape t = [1, 48, 48, 1]
       \<and> elements t ! 0 = 255
       \<and> elements t ! (12 * 48 + 12) = 127.5"
proof -
  obtain t where t: "imageTensorChain checkerboard = Inr t" "dtype t = Float32"
      "shape t = [1, 48, 48, 1]"
      and cells: "\<forall>row < 48. \<forall>col < 48.
        elements t ! (row * 48 + col) =
          (resizedChannel checkerboard 0 row col + resizedChannel checkerboard 1 row col
           + resizedChannel checkerboard 2 row col) / 3"
    using normalizer_shape_and_values [of checkerboard]
    by (auto simp add: checkerboard_def)
  have "elements t ! (0 * 48 + 0) = (255 + 255 + 255) / 3"
    using cells [rule_format, of 0 0] by (simp add: checkerboard_corner)
  moreover have "elements t ! (12 * 48 + 12) = (127.5 + 127.5 + 127.5) / 3"
    using cells [rule_format, of 12 12] by (simp add: checkerboard_middle)
  ultimately show ?thesis
    using t by auto
qed

end
